theory Spec2Isabelle
  imports Main
begin

section \<open>JavaScript strings and values\<close>

text \<open>
  A JavaScript string is a sequence of UTF-16 code units.  A code unit is a natural
  number below \<open>2 ^ 16\<close>; \<open>js\<close> turns a literal of 8-bit characters into such a
  sequence, so that \<open>js ''a.b''\<close> is the JavaScript string \<^verbatim>\<open>"a.b"\<close>.
\<close>

type_synonym jsstring = "nat list"

definition js :: "string \<Rightarrow> jsstring" where
  "js s = map of_char s"

text \<open>
  \<^verbatim>\<open>!x\<close> for a value of type \<^verbatim>\<open>string | undefined\<close> (or \<^verbatim>\<open>string | null\<close>):
  \<^verbatim>\<open>undefined\<close>, \<^verbatim>\<open>null\<close> and the empty string are the falsy ones.
\<close>

fun truthy :: "jsstring option \<Rightarrow> bool" where
  "truthy None = False"
| "truthy (Some s) = (s \<noteq> [])"

text \<open>
  \<^verbatim>\<open>String.prototype.split(sep)\<close> for a separator of one code unit: the pieces between
  the occurrences of the separator, so a string with \<open>n\<close> separators has \<open>n + 1\<close>
  pieces and the empty string has the one piece \<^verbatim>\<open>""\<close>.
\<close>

fun split :: "nat \<Rightarrow> jsstring \<Rightarrow> jsstring list" where
  "split sep [] = [[]]"
| "split sep (c # cs) =
     (if c = sep then [] # split sep cs
      else (case split sep cs of
              [] \<Rightarrow> [[c]]
            | s # ss \<Rightarrow> (c # s) # ss))"

text \<open>\<^verbatim>\<open>xs[i]\<close> on an array: \<^verbatim>\<open>undefined\<close> out of range.\<close>

fun index :: "'a list \<Rightarrow> nat \<Rightarrow> 'a option" where
  "index [] i = None"
| "index (x # xs) 0 = Some x"
| "index (x # xs) (Suc i) = index xs i"

text \<open>\<^verbatim>\<open>s.replace(/a/g, 'b')\<close> for single code units \<open>a\<close> and \<open>b\<close>.\<close>

definition replace :: "nat \<Rightarrow> nat \<Rightarrow> jsstring \<Rightarrow> jsstring" where
  "replace a b s = map (\<lambda>c. if c = a then b else c) s"

text \<open>
  The values \<^verbatim>\<open>JSON.parse\<close> returns.  A number is an IEEE double, \<open>Finite m e\<close>
  standing for \<open>m * 2 ^ e\<close>; only its being \<^verbatim>\<open>NaN\<close> or not is ever looked at here.
  An object is its own properties in order, each name once.
\<close>

datatype jsnumber = NaN | PosInfinity | NegInfinity | Finite int int

datatype json =
    JNull
  | JBool bool
  | JNumber jsnumber
  | JString jsstring
  | JArray "json list"
  | JObject "(jsstring \<times> json) list"

text \<open>
  What the code throws: \<^verbatim>\<open>new Error(message)\<close>, superstruct's \<^verbatim>\<open>StructError\<close>, the
  \<^verbatim>\<open>URIError\<close> of \<^verbatim>\<open>decodeURIComponent\<close>, \<^verbatim>\<open>new LogtoClientError(code, cause)\<close>, and
  the rejection of a promise of a collaborator, with its reason.
\<close>

datatype error =
    Error string
  | StructError
  | URIError
  | LogtoClientError string
  | Rejected string

section \<open>Platform functions\<close>

text \<open>
  The functions of Node.js and of ECMAScript that \<open>decodeToken\<close> calls, after their
  documentation: they are not code of the repository.
\<close>

subsection \<open>\<^verbatim>\<open>Buffer.from(s, 'base64')\<close>\<close>

text \<open>
  Node's base64 decoder never fails.  It reads each code unit of the string by its low
  byte.  It accepts the standard and the URL-safe alphabet, skips every other character,
  stops at the first \<^verbatim>\<open>=\<close>, and decodes a last group of two or three characters to one
  or two bytes (a single left-over character gives none).
\<close>

definition unbase64 :: "nat \<Rightarrow> nat option" where
  "unbase64 c =
     (if 65 \<le> c \<and> c \<le> 90 then Some (c - 65)
      else if 97 \<le> c \<and> c \<le> 122 then Some (c - 71)
      else if 48 \<le> c \<and> c \<le> 57 then Some (c + 4)
      else if c = 43 \<or> c = 45 then Some 62
      else if c = 47 \<or> c = 95 then Some 63
      else None)"

fun sextets :: "jsstring \<Rightarrow> nat list" where
  "sextets [] = []"
| "sextets (c # cs) =
     (case unbase64 (c mod 256) of
        Some v \<Rightarrow> v # sextets cs
      | None \<Rightarrow> if c mod 256 = 61 then [] else sextets cs)"

fun base64_bytes :: "nat list \<Rightarrow> nat list" where
  "base64_bytes (a # b # c # d # rest) =
     (a * 4 + b div 16) # ((b mod 16) * 16 + c div 4) # ((c mod 4) * 64 + d)
       # base64_bytes rest"
| "base64_bytes [a, b, c] = [a * 4 + b div 16, (b mod 16) * 16 + c div 4]"
| "base64_bytes [a, b] = [a * 4 + b div 16]"
| "base64_bytes _ = []"

definition Buffer_from_base64 :: "jsstring \<Rightarrow> nat list" where
  "Buffer_from_base64 s = base64_bytes (sextets s)"

subsection \<open>\<^verbatim>\<open>buf.toString()\<close>\<close>

text \<open>
  The bytes read as UTF-8.  An ill-formed sequence gives U+FFFD and decoding goes on
  at the byte that broke it.  The state is the code point collected so far, the number of
  continuation bytes still needed, and the range allowed for the next byte.
\<close>

fun utf8_decode :: "nat \<Rightarrow> nat \<Rightarrow> nat \<Rightarrow> nat \<Rightarrow> nat list \<Rightarrow> nat list" where
  "utf8_decode cp needed lo hi [] = (if needed = 0 then [] else [65533])"
| "utf8_decode cp needed lo hi (b # bs) =
     (if needed \<noteq> 0 \<and> lo \<le> b \<and> b \<le> hi then
        (if needed = 1 then (cp * 64 + b mod 64) # utf8_decode 0 0 128 191 bs
         else utf8_decode (cp * 64 + b mod 64) (needed - 1) 128 191 bs)
      else
        (if needed \<noteq> 0 then [65533] else []) @
        (if b < 128 then b # utf8_decode 0 0 128 191 bs
         else if 194 \<le> b \<and> b \<le> 223 then utf8_decode (b mod 32) 1 128 191 bs
         else if 224 \<le> b \<and> b \<le> 239 then
           utf8_decode (b mod 16) 2 (if b = 224 then 160 else 128)
             (if b = 237 then 159 else 191) bs
         else if 240 \<le> b \<and> b \<le> 244 then
           utf8_decode (b mod 8) 3 (if b = 240 then 144 else 128)
             (if b = 244 then 143 else 191) bs
         else 65533 # utf8_decode 0 0 128 191 bs))"

text \<open>A code point as UTF-16: itself, or a surrogate pair from U+10000 on.\<close>

definition utf16 :: "nat \<Rightarrow> jsstring" where
  "utf16 v =
     (if v < 65536 then [v]
      else [55296 + (v - 65536) div 1024, 56320 + (v - 65536) mod 1024])"

definition Buffer_toString :: "nat list \<Rightarrow> jsstring" where
  "Buffer_toString bytes = concat (map utf16 (utf8_decode 0 0 128 191 bytes))"

subsection \<open>\<^verbatim>\<open>escape\<close>\<close>

text \<open>
  Letters, digits and \<^verbatim>\<open>@*_+-./\<close> stay; another code unit below 256 becomes \<^verbatim>\<open>%XX\<close>,
  one from 256 on becomes \<^verbatim>\<open>%uXXXX\<close>, in upper-case hexadecimal.
\<close>

definition hexdigit :: "nat \<Rightarrow> nat" where
  "hexdigit n = (if n < 10 then 48 + n else 55 + n)"

definition unescaped :: "nat \<Rightarrow> bool" where
  "unescaped c \<longleftrightarrow>
     (65 \<le> c \<and> c \<le> 90) \<or> (97 \<le> c \<and> c \<le> 122) \<or> (48 \<le> c \<and> c \<le> 57)
     \<or> c \<in> {64, 42, 95, 43, 45, 46, 47}"

definition escape_unit :: "nat \<Rightarrow> jsstring" where
  "escape_unit c =
     (if unescaped c then [c]
      else if c < 256 then [37, hexdigit (c div 16), hexdigit (c mod 16)]
      else [37, 117, hexdigit (c div 4096 mod 16), hexdigit (c div 256 mod 16),
            hexdigit (c div 16 mod 16), hexdigit (c mod 16)])"

definition escape :: "jsstring \<Rightarrow> jsstring" where
  "escape s = concat (map escape_unit s)"

subsection \<open>\<^verbatim>\<open>decodeURIComponent\<close>\<close>

text \<open>
  Every \<^verbatim>\<open>%\<close> must start \<^verbatim>\<open>%XX\<close> with two hexadecimal digits.  A byte below 128 is
  its character; a byte with \<open>n\<close> leading one bits, \<open>2 \<le> n \<le> 4\<close>, must be followed by
  \<open>n - 1\<close> further \<^verbatim>\<open>%XX\<close>, the whole a well-formed UTF-8 encoding of one code point.
  Anything else throws \<^verbatim>\<open>URIError\<close>.
\<close>

definition hexval :: "nat \<Rightarrow> nat option" where
  "hexval c =
     (if 48 \<le> c \<and> c \<le> 57 then Some (c - 48)
      else if 65 \<le> c \<and> c \<le> 70 then Some (c - 55)
      else if 97 \<le> c \<and> c \<le> 102 then Some (c - 87)
      else None)"

definition hexbyte :: "nat \<Rightarrow> nat \<Rightarrow> nat option" where
  "hexbyte h1 h2 =
     (case hexval h1 of
        None \<Rightarrow> None
      | Some a \<Rightarrow> (case hexval h2 of None \<Rightarrow> None | Some b \<Rightarrow> Some (16 * a + b)))"

text \<open>The number of leading one bits of a byte from 128 on.\<close>

definition leading_ones :: "nat \<Rightarrow> nat" where
  "leading_ones b =
     (if b < 192 then 1 else if b < 224 then 2 else if b < 240 then 3
      else if b < 248 then 4 else 5)"

text \<open>
  The code point of \<open>n\<close> octets, the first with its length bits removed, if they are
  its well-formed encoding: continuation bytes in \<open>10xxxxxx\<close>, no overlong form, no
  surrogate, nothing beyond U+10FFFF.
\<close>

definition utf8_code_point :: "nat \<Rightarrow> nat \<Rightarrow> nat list \<Rightarrow> nat option" where
  "utf8_code_point n b octets =
     (let v = foldl (\<lambda>acc c. acc * 64 + c mod 64) (b mod 2 ^ (7 - n)) octets in
      if list_all (\<lambda>c. 128 \<le> c \<and> c < 192) octets
         \<and> (if n = 2 then 128 else if n = 3 then 2048 else 65536) \<le> v
         \<and> \<not> (55296 \<le> v \<and> v \<le> 57343) \<and> v \<le> 1114111
      then Some v else None)"

text \<open>
  \<open>uri_decode b n octets s\<close>: with \<open>n = 0\<close> at the start of a character; otherwise
  inside a sequence of \<open>n\<close> octets with first byte \<open>b\<close>, the continuation bytes read so
  far in \<open>octets\<close>.
\<close>

fun uri_decode :: "nat \<Rightarrow> nat \<Rightarrow> nat list \<Rightarrow> jsstring \<Rightarrow> error + jsstring" where
  "uri_decode b n octets [] = (if n = 0 then Inr [] else Inl URIError)"
| "uri_decode b n octets (c # cs) =
     (if c \<noteq> 37 then
        (if n = 0 then
           (case uri_decode 0 0 [] cs of Inl e \<Rightarrow> Inl e | Inr r \<Rightarrow> Inr (c # r))
         else Inl URIError)
      else
        (case cs of
           h1 # h2 # rest \<Rightarrow>
             (case hexbyte h1 h2 of
                None \<Rightarrow> Inl URIError
              | Some x \<Rightarrow>
                  if n = 0 then
                    (if x < 128 then
                       (case uri_decode 0 0 [] rest of
                          Inl e \<Rightarrow> Inl e
                        | Inr r \<Rightarrow> Inr (x # r))
                     else if leading_ones x = 1 \<or> leading_ones x > 4 then Inl URIError
                     else uri_decode x (leading_ones x) [] rest)
                  else if Suc (length octets) + 1 < n then uri_decode b n (octets @ [x]) rest
                  else
                    (case utf8_code_point n b (octets @ [x]) of
                       None \<Rightarrow> Inl URIError
                     | Some v \<Rightarrow>
                         (case uri_decode 0 0 [] rest of
                            Inl e \<Rightarrow> Inl e
                          | Inr r \<Rightarrow> Inr (utf16 v @ r))))
         | _ \<Rightarrow> Inl URIError))"

definition decodeURIComponent :: "jsstring \<Rightarrow> error + jsstring" where
  "decodeURIComponent s = uri_decode 0 0 [] s"

section \<open>The ID token decoder\<close>

subsection \<open>The padding function\<close>

definition fullfillBase64 :: "jsstring \<Rightarrow> jsstring" where
  "fullfillBase64 input =
     (if length input = 2 then input @ js ''==''
      else if length input = 3 then input @ js ''=''
      else input)"

subsection \<open>The claims schema\<close>

text \<open>
  superstruct's \<^verbatim>\<open>type({...})\<close> accepts a value that is an object (\<^verbatim>\<open>typeof\<close> gives
  \<^verbatim>\<open>'object'\<close> and it is not \<^verbatim>\<open>null\<close>, so an array is one) each of whose listed
  properties passes its own struct; other properties are allowed.  \<open>property v k\<close> is
  \<^verbatim>\<open>v[k]\<close>, \<open>None\<close> for \<^verbatim>\<open>undefined\<close>; an array has none of the names used here.
\<close>

fun property :: "json \<Rightarrow> jsstring \<Rightarrow> json option" where
  "property (JObject kvs) k = map_of kvs k"
| "property _ k = None"

fun isObject :: "json \<Rightarrow> bool" where
  "isObject (JObject kvs) = True"
| "isObject (JArray vs) = True"
| "isObject _ = False"

fun string_struct :: "json option \<Rightarrow> bool" where
  "string_struct (Some (JString s)) = True"
| "string_struct _ = False"

fun number_struct :: "json option \<Rightarrow> bool" where
  "number_struct (Some (JNumber n)) = (n \<noteq> NaN)"
| "number_struct _ = False"

definition optional :: "(json option \<Rightarrow> bool) \<Rightarrow> json option \<Rightarrow> bool" where
  "optional struct v \<longleftrightarrow> v = None \<or> struct v"

definition IDTokenSchema :: "json \<Rightarrow> bool" where
  "IDTokenSchema v \<longleftrightarrow>
     isObject v
     \<and> string_struct (property v (js ''iss''))
     \<and> string_struct (property v (js ''sub''))
     \<and> string_struct (property v (js ''aud''))
     \<and> number_struct (property v (js ''exp''))
     \<and> number_struct (property v (js ''iat''))
     \<and> optional string_struct (property v (js ''at_hash''))"

subsection \<open>\<open>decodeToken\<close>\<close>

text \<open>
  The text of the payload: \<^verbatim>\<open>-\<close> and \<^verbatim>\<open>_\<close> replaced by \<^verbatim>\<open>+\<close> and \<^verbatim>\<open>/\<close>, padded,
  decoded from base64 to bytes, the bytes read as a string, and that string passed
  through \<^verbatim>\<open>decodeURIComponent(escape(...))\<close>.
\<close>

definition payload_json :: "jsstring \<Rightarrow> error + jsstring" where
  "payload_json payloadPart =
     (let payloadString = replace 95 47 (replace 45 43 payloadPart)
      in decodeURIComponent
           (escape (Buffer_toString (Buffer_from_base64 (fullfillBase64 payloadString)))))"

text \<open>
  \<open>JSON_parse\<close> is \<^verbatim>\<open>JSON.parse\<close>, \<open>None\<close> when it throws.  The \<^verbatim>\<open>catch\<close> lets a
  \<^verbatim>\<open>StructError\<close> through and replaces every other error.  What
  \<^verbatim>\<open>decodeURIComponent\<close> throws is thrown before the \<^verbatim>\<open>try\<close>.
\<close>

definition decodeToken :: "(jsstring \<Rightarrow> json option) \<Rightarrow> jsstring \<Rightarrow> error + json" where
  "decodeToken JSON_parse token =
     (case index (split 46 token) 1 of
        None \<Rightarrow> Inl (Error ''invalid token'')
      | Some payloadPart \<Rightarrow>
          if payloadPart = [] then Inl (Error ''invalid token'')
          else
            (case payload_json payloadPart of
               Inl e \<Rightarrow> Inl e
             | Inr json \<Rightarrow>
                 (case JSON_parse json of
                    None \<Rightarrow> Inl (Error ''invalid token: JSON parse failed'')
                  | Some data \<Rightarrow>
                      if IDTokenSchema data then Inr data else Inl StructError)))"

section \<open>The client\<close>

subsection \<open>State\<close>

text \<open>
  Modelled from the spec: \<^verbatim>\<open>OidcConfigResponse\<close> is declared in \<^verbatim>\<open>@logto/js\<close>; the
  discovery document holds the endpoints for authorization, token exchange, end-session
  and revocation, and the JWKS URI.
\<close>

record OidcConfigResponse =
  authorizationEndpoint :: jsstring
  tokenEndpoint :: jsstring
  endSessionEndpoint :: jsstring
  revocationEndpoint :: jsstring
  jwksUri :: jsstring

text \<open>The \<^verbatim>\<open>requester\<close> of the configuration is part of the collaborators below.\<close>

record LogtoConfig =
  endpoint :: jsstring
  clientId :: jsstring
  scopes :: "jsstring list option"
  resources :: "jsstring list option"
  usingPersistStorage :: "bool option"

record AccessToken =
  token :: jsstring
  scope :: jsstring
  expiresAt :: jsnumber

record LogtoClient =
  accessTokenMap :: "jsstring \<rightharpoonup> AccessToken"
  refreshToken :: "jsstring option"
  idToken :: "jsstring option"
  logtoConfig :: LogtoConfig
  oidcConfig :: "OidcConfigResponse option"
  logtoStorageKey :: jsstring

text \<open>
  What the client does to the world outside it, in the order it does it: the requests
  it sends, the items it removes from \<^verbatim>\<open>localStorage\<close>, the navigation it starts.
\<close>

datatype effect =
    FetchOidcConfig jsstring
  | Revoke jsstring jsstring jsstring
  | LocalStorageRemoveItem jsstring
  | LocationAssign jsstring

record world =
  localStorage :: "jsstring \<rightharpoonup> jsstring"
  sessionStorage :: "jsstring \<rightharpoonup> jsstring"
  trace :: "effect list"

text \<open>
  The functions the client imports from \<^verbatim>\<open>@logto/js\<close> and \<^verbatim>\<open>./utils\<close>, and
  \<^verbatim>\<open>window.location.assign\<close>.  A promise is its outcome: \<open>Inl\<close> a rejection.
  \<open>revoke\<close> and \<open>location_assign\<close> give \<open>Some e\<close> when they throw \<open>e\<close>.
\<close>

record collaborators =
  getDiscoveryEndpoint :: "jsstring \<Rightarrow> jsstring"
  fetchOidcConfig :: "jsstring \<Rightarrow> error + OidcConfigResponse"
  revoke :: "jsstring \<Rightarrow> jsstring \<Rightarrow> jsstring \<Rightarrow> error option"
  generateSignOutUri :: "jsstring \<Rightarrow> jsstring option \<Rightarrow> jsstring option \<Rightarrow> jsstring"
  location_assign :: "jsstring \<Rightarrow> error option"

definition isAuthenticated :: "LogtoClient \<Rightarrow> bool" where
  "isAuthenticated c = truthy (idToken c)"

subsection \<open>The sign-in session\<close>

definition LogtoSignInSessionItemSchema :: "json \<Rightarrow> bool" where
  "LogtoSignInSessionItemSchema v \<longleftrightarrow>
     isObject v
     \<and> string_struct (property v (js ''redirectUri''))
     \<and> string_struct (property v (js ''codeVerifier''))
     \<and> string_struct (property v (js ''state''))"

text \<open>
  The getter \<^verbatim>\<open>signInSession\<close>.  \<^verbatim>\<open>getItem\<close> gives \<^verbatim>\<open>null\<close> for a key that is not
  set; \<^verbatim>\<open>!jsonItem\<close> holds for \<^verbatim>\<open>null\<close> and for the empty string.  Whatever the
  \<^verbatim>\<open>try\<close> block throws becomes a \<^verbatim>\<open>LogtoClientError\<close>.
\<close>

definition signInSession ::
  "(jsstring \<Rightarrow> json option) \<Rightarrow> LogtoClient \<Rightarrow> world \<Rightarrow> error + json option" where
  "signInSession JSON_parse c w =
     (case sessionStorage w (logtoStorageKey c) of
        None \<Rightarrow> Inr None
      | Some jsonItem \<Rightarrow>
          if jsonItem = [] then Inr None
          else
            (case JSON_parse jsonItem of
               None \<Rightarrow> Inl (LogtoClientError ''sign_in_session.invalid'')
             | Some item \<Rightarrow>
                 if LogtoSignInSessionItemSchema item then Inr (Some item)
                 else Inl (LogtoClientError ''sign_in_session.invalid'')))"

subsection \<open>\<open>getOidcConfig\<close>\<close>

text \<open>
  An \<^verbatim>\<open>async\<close> function runs until its first \<^verbatim>\<open>await\<close> and goes on when the awaited
  promise is settled; other code may run in between.  \<open>getOidcConfig_begin\<close> is the
  part before the \<^verbatim>\<open>await\<close>: with a configuration in the field it returns it at once,
  without one it calls \<^verbatim>\<open>fetchOidcConfig\<close> and waits.  \<open>getOidcConfig_resume\<close> is the
  part after it, given the outcome of that fetch: a rejection is thrown on, a value is
  stored in the field and returned.
\<close>

datatype suspension = Done OidcConfigResponse | AwaitingFetch

definition getOidcConfig_begin ::
  "collaborators \<Rightarrow> LogtoClient \<times> world \<Rightarrow> suspension \<times> LogtoClient \<times> world" where
  "getOidcConfig_begin env s =
     (let (c, w) = s in
      case oidcConfig c of
        Some cfg \<Rightarrow> (Done cfg, c, w)
      | None \<Rightarrow>
          let discoveryEndpoint = getDiscoveryEndpoint env (endpoint (logtoConfig c))
          in (AwaitingFetch, c, w\<lparr>trace := trace w @ [FetchOidcConfig discoveryEndpoint]\<rparr>))"

definition getOidcConfig_resume ::
  "error + OidcConfigResponse \<Rightarrow> LogtoClient
   \<Rightarrow> (error + OidcConfigResponse) \<times> LogtoClient" where
  "getOidcConfig_resume outcome c =
     (case outcome of
        Inl e \<Rightarrow> (Inl e, c)
      | Inr cfg \<Rightarrow> (Inr cfg, c\<lparr>oidcConfig := Some cfg\<rparr>))"

text \<open>One call on its own, nothing else running while it waits.\<close>

definition getOidcConfig ::
  "collaborators \<Rightarrow> LogtoClient \<times> world
   \<Rightarrow> (error + OidcConfigResponse) \<times> LogtoClient \<times> world" where
  "getOidcConfig env s =
     (case getOidcConfig_begin env s of
        (Done cfg, c, w) \<Rightarrow> (Inr cfg, c, w)
      | (AwaitingFetch, c, w) \<Rightarrow>
          (case getOidcConfig_resume
                  (fetchOidcConfig env (getDiscoveryEndpoint env (endpoint (logtoConfig c)))) c of
             (r, c') \<Rightarrow> (r, c', w)))"

text \<open>
  Several calls made one after the other before any fetch is settled, and then the
  fetches settled in the order they were issued, each call resumed with the outcome of
  its own fetch.
\<close>

fun begin_calls ::
  "collaborators \<Rightarrow> nat \<Rightarrow> LogtoClient \<times> world \<Rightarrow> suspension list \<times> LogtoClient \<times> world" where
  "begin_calls env 0 s = ([], s)"
| "begin_calls env (Suc n) s =
     (case getOidcConfig_begin env s of
        (r, s') \<Rightarrow> (case begin_calls env n s' of (rs, s'') \<Rightarrow> (r # rs, s'')))"

fun settle_calls ::
  "(error + OidcConfigResponse) list \<Rightarrow> LogtoClient
   \<Rightarrow> (error + OidcConfigResponse) list \<times> LogtoClient" where
  "settle_calls [] c = ([], c)"
| "settle_calls (outcome # outcomes) c =
     (case getOidcConfig_resume outcome c of
        (r, c') \<Rightarrow> (case settle_calls outcomes c' of (rs, c'') \<Rightarrow> (r # rs, c'')))"

fun is_fetch :: "effect \<Rightarrow> bool" where
  "is_fetch (FetchOidcConfig u) = True"
| "is_fetch _ = False"

definition fetches :: "world \<Rightarrow> nat" where
  "fetches w = length (filter is_fetch (trace w))"

subsection \<open>\<open>signOut\<close>\<close>

text \<open>
  One call of \<^verbatim>\<open>signOut\<close> on its own.  The result is the outcome of the promise it
  returns, with the client and the world as it leaves them.
\<close>

definition signOut ::
  "collaborators \<Rightarrow> jsstring option \<Rightarrow> LogtoClient \<times> world
   \<Rightarrow> (error + unit) \<times> LogtoClient \<times> world" where
  "signOut env postLogoutRedirectUri s =
     (let (c, w) = s in
      if \<not> truthy (idToken c) then (Inr (), c, w)
      else
        (case getOidcConfig env (c, w) of
           (Inl e, c1, w1) \<Rightarrow> (Inl e, c1, w1)
         | (Inr cfg, c1, w1) \<Rightarrow>
             let w2 =
                   (case refreshToken c1 of
                      None \<Rightarrow> w1
                    | Some rt \<Rightarrow>
                        if rt = [] then w1
                        else
                          let w' = w1\<lparr>trace := trace w1 @
                                     [Revoke (revocationEndpoint cfg) (clientId (logtoConfig c1)) rt]\<rparr>
                          in (case revoke env (revocationEndpoint cfg)
                                     (clientId (logtoConfig c1)) rt of
                                None \<Rightarrow> w'
                              | Some e \<Rightarrow> w'));
                 url = generateSignOutUri env (endSessionEndpoint cfg) postLogoutRedirectUri
                         (idToken c1);
                 idTokenKey = logtoStorageKey c1 @ js '':idToken'';
                 refreshTokenKey = logtoStorageKey c1 @ js '':refreshToken'';
                 w3 = w2\<lparr>localStorage := (localStorage w2)(idTokenKey := None),
                         trace := trace w2 @ [LocalStorageRemoveItem idTokenKey]\<rparr>;
                 w4 = w3\<lparr>localStorage := (localStorage w3)(refreshTokenKey := None),
                         trace := trace w3 @ [LocalStorageRemoveItem refreshTokenKey]\<rparr>;
                 c2 = c1\<lparr>accessTokenMap := Map.empty, idToken := None, refreshToken := None\<rparr>;
                 w5 = w4\<lparr>trace := trace w4 @ [LocationAssign url]\<rparr>
             in (case location_assign env url of
                   None \<Rightarrow> (Inr (), c2, w5)
                 | Some e \<Rightarrow> (Inl e, c2, w5))))"

text \<open>The three parts of what a method of the client leaves behind.\<close>

definition result_of :: "'a \<times> LogtoClient \<times> world \<Rightarrow> 'a" where
  "result_of x = fst x"

definition client_of :: "'a \<times> LogtoClient \<times> world \<Rightarrow> LogtoClient" where
  "client_of x = fst (snd x)"

definition world_of :: "'a \<times> LogtoClient \<times> world \<Rightarrow> world" where
  "world_of x = snd (snd x)"

section \<open>Example inputs\<close>

text \<open>
  \<^verbatim>\<open>JSON.parse\<close> on the four texts the examples give it: \<^verbatim>\<open>[1]\<close> is the array of
  the number 1, the text of a sign-in session is its object; the empty string and
  \<^verbatim>\<open>oops\<close> are no JSON texts.
\<close>

definition JSON_parse_examples :: "jsstring \<Rightarrow> json option" where
  \<open>JSON_parse_examples s =
     (if s = js ''[1]'' then Some (JArray [JNumber (Finite 1 0)])
      else if s = js ''{"redirectUri":"r","codeVerifier":"v","state":"s"}'' then
        Some (JObject [(js ''redirectUri'', JString (js ''r'')),
                       (js ''codeVerifier'', JString (js ''v'')),
                       (js ''state'', JString (js ''s''))])
      else None)\<close>

text \<open>A claims object whose subject is \<^verbatim>\<open>Zo\<close> followed by U+00E9.\<close>

definition zoe_claims :: json where
  "zoe_claims =
     JObject [(js ''iss'', JString (js ''i'')),
              (js ''sub'', JString (js ''Zo'' @ [233])),
              (js ''aud'', JString (js ''a'')),
              (js ''exp'', JNumber (Finite 2 0)),
              (js ''iat'', JNumber (Finite 1 0))]"

definition example_config :: OidcConfigResponse where
  "example_config =
     \<lparr>authorizationEndpoint = js ''https://logto.dev/oidc/auth'',
      tokenEndpoint = js ''https://logto.dev/oidc/token'',
      endSessionEndpoint = js ''https://logto.dev/oidc/session/end'',
      revocationEndpoint = js ''https://logto.dev/oidc/token/revocation'',
      jwksUri = js ''https://logto.dev/oidc/jwks''\<rparr>"

definition other_config :: OidcConfigResponse where
  "other_config = example_config\<lparr>jwksUri := js ''https://logto.dev/oidc/jwks2''\<rparr>"

text \<open>A signed-in client that has not fetched the configuration yet.\<close>

definition example_client :: LogtoClient where
  "example_client =
     \<lparr>accessTokenMap =
        [js ''api'' \<mapsto> \<lparr>token = js ''at'', scope = js ''read'', expiresAt = Finite 1 0\<rparr>],
      refreshToken = Some (js ''rt''),
      idToken = Some (js ''idt''),
      logtoConfig =
        \<lparr>endpoint = js ''https://logto.dev'', clientId = js ''app'', scopes = None,
         resources = None, usingPersistStorage = None\<rparr>,
      oidcConfig = None,
      logtoStorageKey = js ''logto:app''\<rparr>"

definition example_world :: world where
  "example_world =
     \<lparr>localStorage =
        [js ''logto:app:idToken'' \<mapsto> js ''idt'', js ''logto:app:refreshToken'' \<mapsto> js ''rt''],
      sessionStorage = [js ''logto:app'' \<mapsto> []],
      trace = []\<rparr>"

text \<open>Collaborators whose revocation request fails, and ones whose discovery fails.\<close>

definition revoke_fails :: collaborators where
  "revoke_fails =
     \<lparr>getDiscoveryEndpoint = (\<lambda>e. e @ js ''/oidc/.well-known/openid-configuration''),
      fetchOidcConfig = (\<lambda>u. Inr example_config),
      revoke = (\<lambda>e c t. Some (Rejected ''revocation failed'')),
      generateSignOutUri = (\<lambda>e p t. e @ js ''?id_token_hint='' @ (case t of None \<Rightarrow> [] | Some x \<Rightarrow> x)),
      location_assign = (\<lambda>u. None)\<rparr>"

definition discovery_fails :: collaborators where
  "discovery_fails = revoke_fails\<lparr>fetchOidcConfig := (\<lambda>u. Inl (Rejected ''discovery failed''))\<rparr>"

section \<open>Properties of the decoder\<close>

subsection \<open>Splitting a token\<close>

lemma split_not_Nil: "split sep s \<noteq> []"
  by (induction s) (auto split: list.splits)

lemma split_no_sep: "sep \<notin> set s \<Longrightarrow> split sep s = [s]"
  by (induction s) auto

lemma split_append_sep: "sep \<notin> set h \<Longrightarrow> split sep (h @ sep # t) = h # split sep t"
  by (induction h) auto

text \<open>
  A token written as a first segment, a dot, a second segment, and any number of further
  pieces each after a dot: its second piece is that second segment.
\<close>

lemma second_segment:
  assumes "46 \<notin> set header" "46 \<notin> set payloadPart"
  shows "index (split 46 (header @ 46 # payloadPart @ concat (map ((#) 46) others))) 1
         = Some payloadPart"
proof -
  have "\<exists>ss. split 46 (payloadPart @ concat (map ((#) 46) others)) = payloadPart # ss"
  proof (cases others)
    case Nil
    then show ?thesis using assms(2) by (simp add: split_no_sep)
  next
    case (Cons m ms)
    then show ?thesis using assms(2) by (simp add: split_append_sep)
  qed
  then obtain ss where
    "split 46 (payloadPart @ concat (map ((#) 46) others)) = payloadPart # ss" ..
  then show ?thesis using assms(1) by (simp add: split_append_sep)
qed

subsection \<open>What the decoding of the payload can throw\<close>

lemma uri_decode_error: "uri_decode b n octets s = Inl e \<Longrightarrow> e = URIError"
proof (induction b n octets s rule: uri_decode.induct)
  case (1 b n octets)
  then show ?case by (simp split: if_splits)
next
  case (2 b n octets c cs)
  show ?case
  proof (cases "c = 37")
    case False
    with "2.prems" "2.IH"(1) show ?thesis by (auto split: if_splits sum.splits)
  next
    case True
    note c = True
    show ?thesis
    proof (cases cs)
      case Nil
      with "2.prems" c show ?thesis by simp
    next
      case (Cons h1 cs')
      note cs = Cons
      show ?thesis
      proof (cases cs')
        case Nil
        with "2.prems" c cs show ?thesis by simp
      next
        case (Cons h2 rest)
        show ?thesis
        proof (cases "hexbyte h1 h2")
          case None
          with "2.prems" c cs Cons show ?thesis by simp
        next
          case (Some x)
          have ih0: "uri_decode 0 0 [] rest = Inl e \<Longrightarrow> n = 0 \<Longrightarrow> x < 128 \<Longrightarrow> e = URIError"
            using "2.IH"(2) c cs Cons Some by simp
          have ih1: "uri_decode x (leading_ones x) [] rest = Inl e \<Longrightarrow> n = 0 \<Longrightarrow> \<not> x < 128
                \<Longrightarrow> \<not> (leading_ones x = 1 \<or> leading_ones x > 4) \<Longrightarrow> e = URIError"
            using "2.IH"(3) c cs Cons Some by simp
          have ih2: "uri_decode b n (octets @ [x]) rest = Inl e \<Longrightarrow> n \<noteq> 0
                \<Longrightarrow> Suc (length octets) + 1 < n \<Longrightarrow> e = URIError"
            using "2.IH"(4) c cs Cons Some by simp
          have ih3: "uri_decode 0 0 [] rest = Inl e \<Longrightarrow> n \<noteq> 0
                \<Longrightarrow> \<not> Suc (length octets) + 1 < n
                \<Longrightarrow> utf8_code_point n b (octets @ [x]) = Some v \<Longrightarrow> e = URIError" for v
            using "2.IH"(5) c cs Cons Some by simp
          from "2.prems" c cs Cons Some show ?thesis
            by (auto split: if_splits sum.splits option.splits dest: ih0 ih1 ih2 ih3)
        qed
      qed
    qed
  qed
qed

lemma payload_json_error: "payload_json p = Inl e \<Longrightarrow> e = URIError"
  unfolding payload_json_def decodeURIComponent_def Let_def by (rule uri_decode_error)

lemma decodeToken_second_segment:
  assumes "index (split 46 t) 1 = Some p" "p \<noteq> []"
  shows "decodeToken P t =
     (case payload_json p of
        Inl e \<Rightarrow> Inl e
      | Inr json \<Rightarrow>
          (case P json of
             None \<Rightarrow> Inl (Error ''invalid token: JSON parse failed'')
           | Some data \<Rightarrow> if IDTokenSchema data then Inr data else Inl StructError))"
  using assms by (simp add: decodeToken_def)

subsection \<open>Payloads decoded\<close>

text \<open>
  The payloads of \<^verbatim>\<open>[1]\<close>, of \<^verbatim>\<open>oops\<close>, of a claims object whose subject is
  \<^verbatim>\<open>Zo\<close> followed by U+00E9, of \<^verbatim>\<open>{"a":1}\<close>, of the array of the string U+00E9 and
  of the text U+00E9 alone, each step of the decoding on its own.
\<close>

lemma array_payload:
  \<open>payload_json (js ''WzFd'') = Inr (js ''[1]'')\<close>
proof -
  have 1: \<open>replace 95 47 (replace 45 43 (js ''WzFd'')) = js ''WzFd''\<close>
    by (simp add: js_def replace_def)
  have 2: \<open>fullfillBase64 (js ''WzFd'') = js ''WzFd''\<close>
    by (simp add: js_def fullfillBase64_def)
  have 3: \<open>Buffer_from_base64 (js ''WzFd'') = js ''[1]''\<close>
    by (simp add: js_def Buffer_from_base64_def unbase64_def)
  have 4: \<open>Buffer_toString (js ''[1]'') = js ''[1]''\<close>
    by (simp add: js_def Buffer_toString_def utf16_def)
  have 5: \<open>escape (js ''[1]'') = js ''%5B1%5D''\<close>
    by (simp add: js_def escape_def escape_unit_def unescaped_def hexdigit_def)
  have 6: \<open>decodeURIComponent (js ''%5B1%5D'') = Inr (js ''[1]'')\<close>
    by (simp add: js_def decodeURIComponent_def hexbyte_def hexval_def leading_ones_def
        utf8_code_point_def utf16_def)
  show ?thesis
    by (simp only: payload_json_def Let_def 1 2 3 4 5 6)
qed

lemma oops_payload:
  \<open>payload_json (js ''b29wcw'') = Inr (js ''oops'')\<close>
proof -
  have 1: \<open>replace 95 47 (replace 45 43 (js ''b29wcw'')) = js ''b29wcw''\<close>
    by (simp add: js_def replace_def)
  have 2: \<open>fullfillBase64 (js ''b29wcw'') = js ''b29wcw''\<close>
    by (simp add: js_def fullfillBase64_def)
  have 3: \<open>Buffer_from_base64 (js ''b29wcw'') = js ''oops''\<close>
    by (simp add: js_def Buffer_from_base64_def unbase64_def)
  have 4: \<open>Buffer_toString (js ''oops'') = js ''oops''\<close>
    by (simp add: js_def Buffer_toString_def utf16_def)
  have 5: \<open>escape (js ''oops'') = js ''oops''\<close>
    by (simp add: js_def escape_def escape_unit_def unescaped_def hexdigit_def)
  have 6: \<open>decodeURIComponent (js ''oops'') = Inr (js ''oops'')\<close>
    by (simp add: js_def decodeURIComponent_def hexbyte_def hexval_def leading_ones_def
        utf8_code_point_def utf16_def)
  show ?thesis
    by (simp only: payload_json_def Let_def 1 2 3 4 5 6)
qed

lemma zoe_payload:
  \<open>payload_json (js ''eyJpc3MiOiJpIiwic3ViIjoiWm_DqSIsImF1ZCI6ImEiLCJleHAiOjIsImlhdCI6MX0'') = Inl URIError\<close>
proof -
  have 1: \<open>replace 95 47 (replace 45 43 (js ''eyJpc3MiOiJpIiwic3ViIjoiWm_DqSIsImF1ZCI6ImEiLCJleHAiOjIsImlhdCI6MX0'')) = js ''eyJpc3MiOiJpIiwic3ViIjoiWm/DqSIsImF1ZCI6ImEiLCJleHAiOjIsImlhdCI6MX0''\<close>
    by (simp add: js_def replace_def)
  have 2: \<open>fullfillBase64 (js ''eyJpc3MiOiJpIiwic3ViIjoiWm/DqSIsImF1ZCI6ImEiLCJleHAiOjIsImlhdCI6MX0'') = js ''eyJpc3MiOiJpIiwic3ViIjoiWm/DqSIsImF1ZCI6ImEiLCJleHAiOjIsImlhdCI6MX0''\<close>
    by (simp add: js_def fullfillBase64_def)
  have 3: \<open>Buffer_from_base64 (js ''eyJpc3MiOiJpIiwic3ViIjoiWm/DqSIsImF1ZCI6ImEiLCJleHAiOjIsImlhdCI6MX0'') = js ''{"iss":"i","sub":"Zo'' @ [195, 169] @ js ''","aud":"a","exp":2,"iat":1}''\<close>
    by (simp add: js_def Buffer_from_base64_def unbase64_def)
  have 4: \<open>Buffer_toString (js ''{"iss":"i","sub":"Zo'' @ [195, 169] @ js ''","aud":"a","exp":2,"iat":1}'') = js ''{"iss":"i","sub":"Zo'' @ [233] @ js ''","aud":"a","exp":2,"iat":1}''\<close>
    by (simp add: js_def Buffer_toString_def utf16_def)
  have 5: \<open>escape (js ''{"iss":"i","sub":"Zo'' @ [233] @ js ''","aud":"a","exp":2,"iat":1}'') = js ''%7B%22iss%22%3A%22i%22%2C%22sub%22%3A%22Zo%E9%22%2C%22aud%22%3A%22a%22%2C%22exp%22%3A2%2C%22iat%22%3A1%7D''\<close>
    by (simp add: js_def escape_def escape_unit_def unescaped_def hexdigit_def)
  have 6: \<open>decodeURIComponent (js ''%7B%22iss%22%3A%22i%22%2C%22sub%22%3A%22Zo%E9%22%2C%22aud%22%3A%22a%22%2C%22exp%22%3A2%2C%22iat%22%3A1%7D'') = Inl URIError\<close>
    by (simp add: js_def decodeURIComponent_def hexbyte_def hexval_def leading_ones_def
        utf8_code_point_def utf16_def)
  show ?thesis
    by (simp only: payload_json_def Let_def 1 2 3 4 5 6)
qed

lemma unpadded_payload:
  \<open>payload_json (js ''eyJhIjoxfQ'') = Inr (js ''{"a":1}'')\<close>
proof -
  have 1: \<open>replace 95 47 (replace 45 43 (js ''eyJhIjoxfQ'')) = js ''eyJhIjoxfQ''\<close>
    by (simp add: js_def replace_def)
  have 2: \<open>fullfillBase64 (js ''eyJhIjoxfQ'') = js ''eyJhIjoxfQ''\<close>
    by (simp add: js_def fullfillBase64_def)
  have 3: \<open>Buffer_from_base64 (js ''eyJhIjoxfQ'') = js ''{"a":1}''\<close>
    by (simp add: js_def Buffer_from_base64_def unbase64_def)
  have 4: \<open>Buffer_toString (js ''{"a":1}'') = js ''{"a":1}''\<close>
    by (simp add: js_def Buffer_toString_def utf16_def)
  have 5: \<open>escape (js ''{"a":1}'') = js ''%7B%22a%22%3A1%7D''\<close>
    by (simp add: js_def escape_def escape_unit_def unescaped_def hexdigit_def)
  have 6: \<open>decodeURIComponent (js ''%7B%22a%22%3A1%7D'') = Inr (js ''{"a":1}'')\<close>
    by (simp add: js_def decodeURIComponent_def hexbyte_def hexval_def leading_ones_def
        utf8_code_point_def utf16_def)
  show ?thesis
    by (simp only: payload_json_def Let_def 1 2 3 4 5 6)
qed

lemma e_acute_array_payload:
  \<open>payload_json (js ''WyLDqSJd'') = Inl URIError\<close>
proof -
  have 1: \<open>replace 95 47 (replace 45 43 (js ''WyLDqSJd'')) = js ''WyLDqSJd''\<close>
    by (simp add: js_def replace_def)
  have 2: \<open>fullfillBase64 (js ''WyLDqSJd'') = js ''WyLDqSJd''\<close>
    by (simp add: js_def fullfillBase64_def)
  have 3: \<open>Buffer_from_base64 (js ''WyLDqSJd'') = js ''["'' @ [195, 169] @ js ''"]''\<close>
    by (simp add: js_def Buffer_from_base64_def unbase64_def)
  have 4: \<open>Buffer_toString (js ''["'' @ [195, 169] @ js ''"]'') = js ''["'' @ [233] @ js ''"]''\<close>
    by (simp add: js_def Buffer_toString_def utf16_def)
  have 5: \<open>escape (js ''["'' @ [233] @ js ''"]'') = js ''%5B%22%E9%22%5D''\<close>
    by (simp add: js_def escape_def escape_unit_def unescaped_def hexdigit_def)
  have 6: \<open>decodeURIComponent (js ''%5B%22%E9%22%5D'') = Inl URIError\<close>
    by (simp add: js_def decodeURIComponent_def hexbyte_def hexval_def leading_ones_def
        utf8_code_point_def utf16_def)
  show ?thesis
    by (simp only: payload_json_def Let_def 1 2 3 4 5 6)
qed

lemma e_acute_payload:
  \<open>payload_json (js ''w6k'') = Inl URIError\<close>
proof -
  have 1: \<open>replace 95 47 (replace 45 43 (js ''w6k'')) = js ''w6k''\<close>
    by (simp add: js_def replace_def)
  have 2: \<open>fullfillBase64 (js ''w6k'') = js ''w6k=''\<close>
    by (simp add: js_def fullfillBase64_def)
  have 3: \<open>Buffer_from_base64 (js ''w6k='') = [195, 169]\<close>
    by (simp add: js_def Buffer_from_base64_def unbase64_def)
  have 4: \<open>Buffer_toString ([195, 169]) = [233]\<close>
    by (simp add: js_def Buffer_toString_def utf16_def)
  have 5: \<open>escape ([233]) = js ''%E9''\<close>
    by (simp add: js_def escape_def escape_unit_def unescaped_def hexdigit_def)
  have 6: \<open>decodeURIComponent (js ''%E9'') = Inl URIError\<close>
    by (simp add: js_def decodeURIComponent_def hexbyte_def hexval_def leading_ones_def
        utf8_code_point_def utf16_def)
  show ?thesis
    by (simp only: payload_json_def Let_def 1 2 3 4 5 6)
qed

text \<open>A code unit from 256 on counts by its low byte: 321 is read as \<^verbatim>\<open>A\<close>.\<close>

lemma low_byte_payload: "Buffer_from_base64 [87, 122, 321, 70, 100] = [91, 48, 5]"
  by (simp add: Buffer_from_base64_def unbase64_def)

subsection \<open>Padding\<close>

text \<open>
  C1 (the padding step).  The claim has \<open>fullfillBase64\<close> bring every payload to a length
  that is a multiple of 4, by \<^verbatim>\<open>==\<close> when the length leaves remainder 2 and by \<^verbatim>\<open>=\<close>
  when it leaves 3.  The function compares the whole length with 2 and 3, not its
  remainder: the ten characters \<^verbatim>\<open>eyJhIjoxfQ\<close> (the payload of \<^verbatim>\<open>{"a":1}\<close>) come back
  as they are, ten characters long.  (They still decode, see \<open>unpadded_payload\<close>: the
  base64 decoder does not ask for padding.)
\<close>

theorem fullfillBase64_leaves_remainder_2:
  "fullfillBase64 (js ''eyJhIjoxfQ'') = js ''eyJhIjoxfQ''
   \<and> length (js ''eyJhIjoxfQ'') mod 4 = 2
   \<and> length (fullfillBase64 (js ''eyJhIjoxfQ'')) mod 4 \<noteq> 0"
  by (simp add: fullfillBase64_def js_def)

subsection \<open>Tokens without a payload segment\<close>

text \<open>
  C5.  A token with at most one dot-separated segment, that is a token without a dot,
  has no payload segment: \<open>decodeToken\<close> throws \<^verbatim>\<open>Error('invalid token')\<close>, its error
  for an invalid token format, whatever \<^verbatim>\<open>JSON.parse\<close> would do.
\<close>

theorem decodeToken_no_payload_segment:
  "length (split 46 t) \<le> 1 \<Longrightarrow> decodeToken JSON_parse t = Inl (Error ''invalid token'')"
proof -
  assume "length (split 46 t) \<le> 1"
  then obtain x where "split 46 t = [x]"
    using split_not_Nil [of 46 t] by (cases "split 46 t") auto
  then show ?thesis by (simp add: decodeToken_def)
qed

theorem decodeToken_no_payload_segment_witness:
  "length (split 46 (js ''not-a-jwt'')) \<le> 1
   \<and> decodeToken JSON_parse_examples (js ''not-a-jwt'') = Inl (Error ''invalid token'')
   \<and> length (split 46 (js [])) \<le> 1
   \<and> decodeToken JSON_parse_examples (js []) = Inl (Error ''invalid token'')"
proof -
  have a: "length (split 46 (js ''not-a-jwt'')) \<le> 1" by (simp add: js_def)
  have b: "length (split 46 (js [])) \<le> 1" by (simp add: js_def)
  show ?thesis
    using a b decodeToken_no_payload_segment [OF a] decodeToken_no_payload_segment [OF b]
    by simp
qed

subsection \<open>The kinds of failure\<close>

text \<open>
  On a text that reaches \<^verbatim>\<open>JSON.parse\<close> the \<^verbatim>\<open>try\<close> block tells the two failures
  apart.  Let \<open>json\<close> be the text the payload decodes to.  \<open>decodeToken\<close> throws
  superstruct's \<^verbatim>\<open>StructError\<close> exactly when \<open>json\<close> parses and the parsed value does
  not match the claims schema, and it throws
  \<^verbatim>\<open>Error('invalid token: JSON parse failed')\<close> exactly when \<^verbatim>\<open>JSON.parse\<close> throws on
  \<open>json\<close>.
\<close>

lemma decodeToken_try_catch:
  "(decodeToken JSON_parse t = Inl StructError \<longleftrightarrow>
      (\<exists>payloadPart json data.
         index (split 46 t) 1 = Some payloadPart \<and> payloadPart \<noteq> []
         \<and> payload_json payloadPart = Inr json
         \<and> JSON_parse json = Some data \<and> \<not> IDTokenSchema data))
   \<and> (decodeToken JSON_parse t = Inl (Error ''invalid token: JSON parse failed'') \<longleftrightarrow>
      (\<exists>payloadPart json.
         index (split 46 t) 1 = Some payloadPart \<and> payloadPart \<noteq> []
         \<and> payload_json payloadPart = Inr json \<and> JSON_parse json = None))"
  by (auto simp: decodeToken_def split: option.splits sum.splits if_splits
      dest: payload_json_error)

lemma decodeToken_try_catch_examples:
  "decodeToken JSON_parse_examples (js ''h.WzFd.s'') = Inl StructError
   \<and> decodeToken JSON_parse_examples (js ''h.b29wcw.s'')
       = Inl (Error ''invalid token: JSON parse failed'')"
proof -
  have "index (split 46 (js ''h.WzFd.s'')) 1 = Some (js ''WzFd'') \<and> js ''WzFd'' \<noteq> []
        \<and> payload_json (js ''WzFd'') = Inr (js ''[1]'')
        \<and> JSON_parse_examples (js ''[1]'') = Some (JArray [JNumber (Finite 1 0)])
        \<and> \<not> IDTokenSchema (JArray [JNumber (Finite 1 0)])"
    by (simp add: array_payload JSON_parse_examples_def IDTokenSchema_def) (simp add: js_def)
  then have a: "decodeToken JSON_parse_examples (js ''h.WzFd.s'') = Inl StructError"
    using decodeToken_try_catch [of JSON_parse_examples "js ''h.WzFd.s''"] by blast
  have "index (split 46 (js ''h.b29wcw.s'')) 1 = Some (js ''b29wcw'') \<and> js ''b29wcw'' \<noteq> []
        \<and> payload_json (js ''b29wcw'') = Inr (js ''oops'')
        \<and> JSON_parse_examples (js ''oops'') = None"
    by (simp add: oops_payload JSON_parse_examples_def) (simp add: js_def)
  then have "decodeToken JSON_parse_examples (js ''h.b29wcw.s'')
             = Inl (Error ''invalid token: JSON parse failed'')"
    using decodeToken_try_catch [of JSON_parse_examples "js ''h.b29wcw.s''"] by blast
  with a show ?thesis by simp
qed

text \<open>
  C6.  The claim has a payload that is JSON of the wrong shape fail with the schema
  error, and a payload that is no JSON fail with the parse error, the two kept apart.
  The payload \<^verbatim>\<open>WyLDqSJd\<close> is the JSON text of the array of the string U+00E9, which
  does not match the claims schema; the payload \<^verbatim>\<open>w6k\<close> is the text U+00E9 alone,
  which is no JSON.  On both \<open>decodeToken\<close> throws the same \<^verbatim>\<open>URIError\<close>, out of
  \<^verbatim>\<open>decodeURIComponent(escape(...))\<close> and before the \<^verbatim>\<open>try\<close> block, whatever
  \<^verbatim>\<open>JSON.parse\<close> is: neither the \<^verbatim>\<open>StructError\<close> nor the parse error is reached, and
  the two kinds of failure are not told apart.
\<close>

theorem decodeToken_non_ascii_failures_alike:
  \<open>Buffer_toString (Buffer_from_base64 (js ''WyLDqSJd'')) = js ''["'' @ [233] @ js ''"]''
   \<and> \<not> IDTokenSchema (JArray [JString [233]])
   \<and> decodeToken JSON_parse (js ''h.WyLDqSJd.s'') = Inl URIError
   \<and> Buffer_toString (Buffer_from_base64 (js ''w6k'')) = [233]
   \<and> decodeToken JSON_parse (js ''h.w6k.s'') = Inl URIError\<close>
proof -
  have seg1: "index (split 46 (js ''h.WyLDqSJd.s'')) 1 = Some (js ''WyLDqSJd'')"
    by (simp add: js_def)
  have ne1: "js ''WyLDqSJd'' \<noteq> []"
    by (simp add: js_def)
  have seg2: "index (split 46 (js ''h.w6k.s'')) 1 = Some (js ''w6k'')"
    by (simp add: js_def)
  have ne2: "js ''w6k'' \<noteq> []"
    by (simp add: js_def)
  have bytes1: \<open>Buffer_from_base64 (js ''WyLDqSJd'') = js ''["'' @ [195, 169] @ js ''"]''\<close>
    by (simp add: js_def Buffer_from_base64_def unbase64_def)
  have string1: \<open>Buffer_toString (js ''["'' @ [195, 169] @ js ''"]'')
                  = js ''["'' @ [233] @ js ''"]''\<close>
    by (simp add: js_def Buffer_toString_def utf16_def)
  have bytes2: "Buffer_from_base64 (js ''w6k'') = [195, 169]"
    by (simp add: js_def Buffer_from_base64_def unbase64_def)
  have string2: "Buffer_toString [195, 169] = [233]"
    by (simp add: Buffer_toString_def utf16_def)
  have d1: "decodeToken JSON_parse (js ''h.WyLDqSJd.s'') = Inl URIError"
    by (simp add: decodeToken_second_segment [OF seg1 ne1] e_acute_array_payload)
  have d2: "decodeToken JSON_parse (js ''h.w6k.s'') = Inl URIError"
    by (simp add: decodeToken_second_segment [OF seg2 ne2] e_acute_payload)
  have shape: "\<not> IDTokenSchema (JArray [JString [233]])"
    by (simp add: IDTokenSchema_def)
  from d1 d2 shape show ?thesis
    by (simp only: bytes1 string1 bytes2 string2 simp_thms)
qed

subsection \<open>Only the second segment counts\<close>

text \<open>
  C10.  \<open>decodeToken\<close> looks at the second dot-separated segment of the token and at
  nothing else.  If that segment is not empty the format check passes, whatever the
  number of segments: two (no signature), three, or more.  And two tokens with the same
  second segment give the same result, whatever their first segments and whatever comes
  after the second.
\<close>

theorem decodeToken_only_second_segment:
  assumes "index (split 46 t) 1 = Some payloadPart" and "payloadPart \<noteq> []"
    and "index (split 46 t') 1 = Some payloadPart"
  shows "decodeToken JSON_parse t \<noteq> Inl (Error ''invalid token'')
         \<and> decodeToken JSON_parse t = decodeToken JSON_parse t'"
proof -
  note 1 = decodeToken_second_segment [OF assms(1,2)]
  note 2 = decodeToken_second_segment [OF assms(3,2)]
  have "decodeToken JSON_parse t = decodeToken JSON_parse t'"
    by (simp only: 1 2)
  moreover have "decodeToken JSON_parse t \<noteq> Inl (Error ''invalid token'')"
    unfolding 1 by (auto split: sum.splits option.splits dest: payload_json_error)
  ultimately show ?thesis by simp
qed

theorem decodeToken_only_second_segment_witness:
  "index (split 46 (js ''h.WzFd.s.x'')) 1 = Some (js ''WzFd'') \<and> js ''WzFd'' \<noteq> []
   \<and> index (split 46 (js ''.WzFd'')) 1 = Some (js ''WzFd'')
   \<and> decodeToken JSON_parse_examples (js ''h.WzFd.s.x'') \<noteq> Inl (Error ''invalid token'')
   \<and> decodeToken JSON_parse_examples (js ''h.WzFd.s.x'')
       = decodeToken JSON_parse_examples (js ''.WzFd'')"
proof -
  have a: "index (split 46 (js ''h.WzFd.s.x'')) 1 = Some (js ''WzFd'')"
    by (simp add: js_def)
  have b: "js ''WzFd'' \<noteq> []"
    by (simp add: js_def)
  have c: "index (split 46 (js ''.WzFd'')) 1 = Some (js ''WzFd'')"
    by (simp add: js_def)
  from a b c decodeToken_only_second_segment [OF a b c, of JSON_parse_examples]
  show ?thesis by blast
qed

subsection \<open>Claims outside ASCII\<close>

text \<open>
  C7 (round trip).  The claims object \<open>zoe_claims\<close>, with issuer \<^verbatim>\<open>i\<close>, subject
  \<^verbatim>\<open>Zo\<close> followed by U+00E9, audience \<^verbatim>\<open>a\<close>, \<^verbatim>\<open>exp\<close> 2 and \<^verbatim>\<open>iat\<close> 1, matches the
  schema.  Its JSON text, in UTF-8 and base64url, is the second segment of the token
  below, and the buffer read as a string is that JSON text again.  \<open>decodeToken\<close> then
  applies
  \<^verbatim>\<open>decodeURIComponent(escape(...))\<close> to the string: \<^verbatim>\<open>escape\<close> writes U+00E9 as
  \<^verbatim>\<open>%E9\<close>, which \<^verbatim>\<open>decodeURIComponent\<close> takes for the start of a three-byte UTF-8
  sequence and rejects.  The token does not decode to the claims; it throws
  \<^verbatim>\<open>URIError\<close>, whatever \<^verbatim>\<open>JSON.parse\<close> is.
\<close>

theorem decodeToken_non_ascii_claims:
  \<open>IDTokenSchema zoe_claims
   \<and> Buffer_toString (Buffer_from_base64
      (js ''eyJpc3MiOiJpIiwic3ViIjoiWm_DqSIsImF1ZCI6ImEiLCJleHAiOjIsImlhdCI6MX0''))
     = js ''{"iss":"i","sub":"Zo'' @ [233] @ js ''","aud":"a","exp":2,"iat":1}''
   \<and> decodeToken JSON_parse
        (js ''eyJhbGciOiJFUzM4NCJ9.eyJpc3MiOiJpIiwic3ViIjoiWm_DqSIsImF1ZCI6ImEiLCJleHAiOjIsImlhdCI6MX0.c2ln'')
     = Inl URIError\<close>
proof -
  have seg: "index (split 46
      (js ''eyJhbGciOiJFUzM4NCJ9.eyJpc3MiOiJpIiwic3ViIjoiWm_DqSIsImF1ZCI6ImEiLCJleHAiOjIsImlhdCI6MX0.c2ln'')) 1
     = Some (js ''eyJpc3MiOiJpIiwic3ViIjoiWm_DqSIsImF1ZCI6ImEiLCJleHAiOjIsImlhdCI6MX0'')"
    by (simp add: js_def)
  have ne: "js ''eyJpc3MiOiJpIiwic3ViIjoiWm_DqSIsImF1ZCI6ImEiLCJleHAiOjIsImlhdCI6MX0'' \<noteq> []"
    by (simp add: js_def)
  have bytes: \<open>Buffer_from_base64
      (js ''eyJpc3MiOiJpIiwic3ViIjoiWm_DqSIsImF1ZCI6ImEiLCJleHAiOjIsImlhdCI6MX0'')
     = js ''{"iss":"i","sub":"Zo'' @ [195, 169] @ js ''","aud":"a","exp":2,"iat":1}''\<close>
    by (simp add: js_def Buffer_from_base64_def unbase64_def)
  have string: \<open>Buffer_toString
      (js ''{"iss":"i","sub":"Zo'' @ [195, 169] @ js ''","aud":"a","exp":2,"iat":1}'')
     = js ''{"iss":"i","sub":"Zo'' @ [233] @ js ''","aud":"a","exp":2,"iat":1}''\<close>
    by (simp add: js_def Buffer_toString_def utf16_def)
  have "decodeToken JSON_parse
        (js ''eyJhbGciOiJFUzM4NCJ9.eyJpc3MiOiJpIiwic3ViIjoiWm_DqSIsImF1ZCI6ImEiLCJleHAiOjIsImlhdCI6MX0.c2ln'')
     = Inl URIError"
    by (simp add: decodeToken_second_segment [OF seg ne] zoe_payload)
  moreover have "IDTokenSchema zoe_claims"
    by (simp add: zoe_claims_def IDTokenSchema_def optional_def) (simp add: js_def)
  ultimately show ?thesis
    by (simp only: bytes string simp_thms)
qed

section \<open>Properties of the client\<close>

subsection \<open>What \<open>getOidcConfig\<close> does\<close>

lemma getOidcConfig_cached:
  "oidcConfig c = Some cfg \<Longrightarrow> getOidcConfig env (c, w) = (Inr cfg, c, w)"
  by (simp add: getOidcConfig_def getOidcConfig_begin_def)

lemma getOidcConfig_fetch:
  "oidcConfig c = None \<Longrightarrow>
   getOidcConfig env (c, w) =
     (case fetchOidcConfig env (getDiscoveryEndpoint env (endpoint (logtoConfig c))) of
        Inl e \<Rightarrow> Inl e
      | Inr cfg \<Rightarrow> Inr cfg,
      case fetchOidcConfig env (getDiscoveryEndpoint env (endpoint (logtoConfig c))) of
        Inl e \<Rightarrow> c
      | Inr cfg \<Rightarrow> c\<lparr>oidcConfig := Some cfg\<rparr>,
      w\<lparr>trace := trace w @
         [FetchOidcConfig (getDiscoveryEndpoint env (endpoint (logtoConfig c)))]\<rparr>)"
  by (simp add: getOidcConfig_def getOidcConfig_begin_def getOidcConfig_resume_def Let_def
      split: sum.splits)

text \<open>\<open>getOidcConfig\<close> touches the configuration field and the trace, nothing else.\<close>

lemma getOidcConfig_frame:
  assumes "getOidcConfig env (c, w) = (r, c1, w1)"
  shows "c1 = c\<lparr>oidcConfig := oidcConfig c1\<rparr> \<and> w1 = w\<lparr>trace := trace w1\<rparr>"
proof (cases "oidcConfig c")
  case None
  from assms show ?thesis
    unfolding getOidcConfig_fetch [OF None] by (auto split: sum.splits)
next
  case (Some cfg)
  from assms show ?thesis
    unfolding getOidcConfig_cached [OF Some] by auto
qed

lemma begin_calls_uncached:
  "oidcConfig c = None \<Longrightarrow>
   begin_calls env n (c, w) =
     (replicate n AwaitingFetch, c,
      w\<lparr>trace := trace w @
         replicate n (FetchOidcConfig (getDiscoveryEndpoint env (endpoint (logtoConfig c))))\<rparr>)"
proof (induction n arbitrary: w)
  case 0
  then show ?case by simp
next
  case (Suc n)
  then show ?case
    by (simp add: getOidcConfig_begin_def Let_def replicate_app_Cons_same)
qed

lemma settle_calls_results: "fst (settle_calls outcomes c) = outcomes"
proof (induction outcomes arbitrary: c)
  case Nil
  show ?case by simp
next
  case (Cons x xs)
  obtain r c' where 1: "getOidcConfig_resume x c = (r, c')"
    by (cases "getOidcConfig_resume x c") auto
  then have r: "r = x"
    by (auto simp: getOidcConfig_resume_def split: sum.splits)
  obtain rs c'' where 2: "settle_calls xs c' = (rs, c'')"
    by (cases "settle_calls xs c'") auto
  with Cons.IH [of c'] have "rs = xs" by simp
  with 1 2 r show ?case by simp
qed

subsection \<open>Signing out without an ID token\<close>

text \<open>
  C8.  When no ID token is held (the field is \<^verbatim>\<open>undefined\<close>, or the empty string, which
  \<^verbatim>\<open>!this.idToken\<close> treats alike), \<open>signOut\<close> returns at once: the client is as it
  was, both storages are as they were, and nothing is added to the trace, so there is no
  request, no removal from storage and no redirect.
\<close>

theorem signOut_without_idToken:
  "\<not> truthy (idToken c) \<Longrightarrow> signOut env postLogoutRedirectUri (c, w) = (Inr (), c, w)"
  by (simp add: signOut_def)

theorem signOut_without_idToken_witness:
  "\<not> truthy (idToken (example_client\<lparr>idToken := None\<rparr>))
   \<and> signOut revoke_fails None (example_client\<lparr>idToken := None\<rparr>, example_world)
       = (Inr (), example_client\<lparr>idToken := None\<rparr>, example_world)
   \<and> \<not> truthy (idToken (example_client\<lparr>idToken := Some []\<rparr>))
   \<and> signOut revoke_fails None (example_client\<lparr>idToken := Some []\<rparr>, example_world)
       = (Inr (), example_client\<lparr>idToken := Some []\<rparr>, example_world)"
proof -
  have a: "\<not> truthy (idToken (example_client\<lparr>idToken := None\<rparr>))" by simp
  have b: "\<not> truthy (idToken (example_client\<lparr>idToken := Some []\<rparr>))" by simp
  show ?thesis
    using a b signOut_without_idToken [OF a, of revoke_fails None example_world]
      signOut_without_idToken [OF b, of revoke_fails None example_world]
    by simp
qed

subsection \<open>Signing out when discovery fails\<close>

text \<open>
  C4.  An ID token is held, no configuration is cached, and the discovery fetch is
  rejected with \<open>e\<close>.  Then \<open>signOut\<close> is rejected with \<open>e\<close>; the client is unchanged
  (ID token, refresh token and access-token map as before, so it is still authenticated)
  and of the world only the trace has changed, by the one fetch: \<^verbatim>\<open>localStorage\<close> still
  holds both tokens.
\<close>

theorem signOut_discovery_fails:
  assumes "truthy (idToken c)" and "oidcConfig c = None"
    and "fetchOidcConfig env (getDiscoveryEndpoint env (endpoint (logtoConfig c))) = Inl e"
  shows "signOut env postLogoutRedirectUri (c, w) =
           (Inl e, c,
            w\<lparr>trace := trace w @
               [FetchOidcConfig (getDiscoveryEndpoint env (endpoint (logtoConfig c)))]\<rparr>)
         \<and> isAuthenticated (client_of (signOut env postLogoutRedirectUri (c, w)))
         \<and> localStorage (world_of (signOut env postLogoutRedirectUri (c, w))) = localStorage w"
  using assms
  by (simp add: signOut_def getOidcConfig_fetch isAuthenticated_def client_of_def world_of_def)

theorem signOut_discovery_fails_witness:
  "truthy (idToken example_client) \<and> oidcConfig example_client = None
   \<and> fetchOidcConfig discovery_fails
        (getDiscoveryEndpoint discovery_fails (endpoint (logtoConfig example_client)))
       = Inl (Rejected ''discovery failed'')
   \<and> result_of (signOut discovery_fails None (example_client, example_world))
       = Inl (Rejected ''discovery failed'')
   \<and> client_of (signOut discovery_fails None (example_client, example_world)) = example_client
   \<and> isAuthenticated (client_of (signOut discovery_fails None (example_client, example_world)))
   \<and> localStorage (world_of (signOut discovery_fails None (example_client, example_world)))
       = localStorage example_world"
proof -
  have a: "truthy (idToken example_client)"
    by (simp add: example_client_def js_def)
  have b: "oidcConfig example_client = None"
    by (simp add: example_client_def)
  have c: "fetchOidcConfig discovery_fails
        (getDiscoveryEndpoint discovery_fails (endpoint (logtoConfig example_client)))
       = Inl (Rejected ''discovery failed'')"
    by (simp add: discovery_fails_def)
  from signOut_discovery_fails [OF a b c, of None example_world] a b c
  show ?thesis
    by (simp add: result_of_def client_of_def world_of_def isAuthenticated_def)
qed

subsection \<open>Signing out when revocation fails\<close>

text \<open>
  C3.  An ID token and a refresh token are held, the configuration is there (cached or
  fetched), and the revocation request throws \<open>e\<close>.  Then \<open>e\<close> is not what
  \<open>signOut\<close> gives: its outcome is that of the redirect alone.  The client ends with
  no access tokens, no ID token and no refresh token, both keys are gone from
  \<^verbatim>\<open>localStorage\<close>, and the trace ends with the revocation request, the two removals
  and then the redirect to the end-session URL, in this order.  All of this holds whether
  or not the redirect itself throws: the state is cleared before it.
\<close>

theorem signOut_revocation_throws:
  assumes "idToken c = Some idt" and "idt \<noteq> []"
    and "refreshToken c = Some rt" and "rt \<noteq> []"
    and "getOidcConfig env (c, w) = (Inr cfg, c1, w1)"
    and "revoke env (revocationEndpoint cfg) (clientId (logtoConfig c)) rt = Some e"
  shows "result_of (signOut env postLogoutRedirectUri (c, w)) =
           (case location_assign env
                   (generateSignOutUri env (endSessionEndpoint cfg) postLogoutRedirectUri (Some idt)) of
              None \<Rightarrow> Inr ()
            | Some e' \<Rightarrow> Inl e')
         \<and> client_of (signOut env postLogoutRedirectUri (c, w)) =
             c1\<lparr>accessTokenMap := Map.empty, idToken := None, refreshToken := None\<rparr>
         \<and> \<not> isAuthenticated (client_of (signOut env postLogoutRedirectUri (c, w)))
         \<and> localStorage (world_of (signOut env postLogoutRedirectUri (c, w))) =
             (localStorage w)(logtoStorageKey c @ js '':idToken'' := None,
                              logtoStorageKey c @ js '':refreshToken'' := None)
         \<and> trace (world_of (signOut env postLogoutRedirectUri (c, w))) =
             trace w1 @
             [Revoke (revocationEndpoint cfg) (clientId (logtoConfig c)) rt,
              LocalStorageRemoveItem (logtoStorageKey c @ js '':idToken''),
              LocalStorageRemoveItem (logtoStorageKey c @ js '':refreshToken''),
              LocationAssign
                (generateSignOutUri env (endSessionEndpoint cfg) postLogoutRedirectUri (Some idt))]"
proof -
  from getOidcConfig_frame [OF assms(5)]
  have c1: "c1 = c\<lparr>oidcConfig := oidcConfig c1\<rparr>" and w1: "w1 = w\<lparr>trace := trace w1\<rparr>"
    by simp_all
  have f: "idToken c1 = Some idt" "refreshToken c1 = Some rt"
    "logtoConfig c1 = logtoConfig c" "logtoStorageKey c1 = logtoStorageKey c"
    "localStorage w1 = localStorage w"
    using assms(1,3) by (subst c1, simp)+ (subst w1, simp)
  show ?thesis
    using assms(1,2,4,6) f
    by (simp add: signOut_def assms(5) Let_def result_of_def client_of_def world_of_def
        isAuthenticated_def split: option.splits)
qed

theorem signOut_revocation_throws_witness:
  "result_of (signOut revoke_fails None (example_client, example_world)) = Inr ()
   \<and> \<not> isAuthenticated (client_of (signOut revoke_fails None (example_client, example_world)))
   \<and> localStorage (world_of (signOut revoke_fails None (example_client, example_world)))
       = Map.empty
   \<and> trace (world_of (signOut revoke_fails None (example_client, example_world)))
       = [FetchOidcConfig (js ''https://logto.dev/oidc/.well-known/openid-configuration''),
          Revoke (js ''https://logto.dev/oidc/token/revocation'') (js ''app'') (js ''rt''),
          LocalStorageRemoveItem (js ''logto:app:idToken''),
          LocalStorageRemoveItem (js ''logto:app:refreshToken''),
          LocationAssign (js ''https://logto.dev/oidc/session/end?id_token_hint=idt'')]"
proof -
  have a: "idToken example_client = Some (js ''idt'')" "js ''idt'' \<noteq> []"
    "refreshToken example_client = Some (js ''rt'')" "js ''rt'' \<noteq> []"
    by (simp_all add: example_client_def js_def)
  have b: "getOidcConfig revoke_fails (example_client, example_world) =
     (Inr example_config, example_client\<lparr>oidcConfig := Some example_config\<rparr>,
      example_world\<lparr>trace :=
        [FetchOidcConfig (js ''https://logto.dev/oidc/.well-known/openid-configuration'')]\<rparr>)"
    by (simp add: getOidcConfig_fetch example_client_def revoke_fails_def example_world_def js_def)
  have c: "revoke revoke_fails (revocationEndpoint example_config)
             (clientId (logtoConfig example_client)) (js ''rt'')
           = Some (Rejected ''revocation failed'')"
    by (simp add: revoke_fails_def)
  have d: "location_assign revoke_fails u = None"
    "generateSignOutUri revoke_fails (endSessionEndpoint example_config) None (Some (js ''idt''))
     = js ''https://logto.dev/oidc/session/end?id_token_hint=idt''"
    "revocationEndpoint example_config = js ''https://logto.dev/oidc/token/revocation''"
    "clientId (logtoConfig example_client) = js ''app''"
    "logtoStorageKey example_client @ js '':idToken'' = js ''logto:app:idToken''"
    "logtoStorageKey example_client @ js '':refreshToken'' = js ''logto:app:refreshToken''"
    for u
    by (simp_all add: revoke_fails_def example_config_def example_client_def js_def)
  have e: "(localStorage example_world)(js ''logto:app:idToken'' := None,
              js ''logto:app:refreshToken'' := None) = Map.empty"
    by (simp add: example_world_def)
  from signOut_revocation_throws [OF a b c, of None]
  show ?thesis
    by (simp add: d e isAuthenticated_def)
qed

subsection \<open>Concurrent calls of \<open>getOidcConfig\<close>\<close>

text \<open>
  Two calls made before any fetch is settled, on a client without a cached
  configuration: each finds the field empty and sends its own request, so the discovery
  document is fetched twice; and if the two fetches give different documents, the two
  callers get different values.
\<close>

theorem getOidcConfig_two_calls_two_fetches:
  "oidcConfig example_client = None \<and> fetches example_world = 0
   \<and> fetches (world_of (begin_calls revoke_fails 2 (example_client, example_world))) = 2
   \<and> fst (settle_calls [Inr example_config, Inr other_config] example_client)
       = [Inr example_config, Inr other_config]
   \<and> example_config \<noteq> other_config"
proof -
  have a: "oidcConfig example_client = None"
    by (simp add: example_client_def)
  have b: "fetches example_world = 0"
    by (simp add: example_world_def fetches_def)
  have c: "example_config \<noteq> other_config"
    by (simp add: other_config_def example_config_def js_def)
  have d: "fetches (world_of (begin_calls revoke_fails 2 (example_client, example_world))) = 2"
    using b by (simp add: begin_calls_uncached [OF a] world_of_def fetches_def)
  have e: "fst (settle_calls [Inr example_config, Inr other_config] example_client)
           = [Inr example_config, Inr other_config]"
    by (rule settle_calls_results)
  from a b c d e show ?thesis
    by (simp only: simp_thms)
qed

text \<open>
  C2, as the code has it.  Of \<open>n\<close> calls made before any fetch is settled, on a client
  without a cached configuration, every one waits for a fetch of its own: \<open>n\<close> requests
  are sent.  Each caller is then given the outcome of its own fetch.  A value a fetch
  resolved with is stored, and a call made after that returns the stored value without a
  request.
\<close>

theorem getOidcConfig_one_fetch_per_pending_call:
  assumes "oidcConfig c = None"
  shows "result_of (begin_calls env n (c, w)) = replicate n AwaitingFetch
         \<and> client_of (begin_calls env n (c, w)) = c
         \<and> fetches (world_of (begin_calls env n (c, w))) = fetches w + n
         \<and> fst (settle_calls outcomes c) = outcomes
         \<and> getOidcConfig_resume (Inr cfg) c = (Inr cfg, c\<lparr>oidcConfig := Some cfg\<rparr>)
         \<and> getOidcConfig_begin env (c\<lparr>oidcConfig := Some cfg\<rparr>, w)
             = (Done cfg, c\<lparr>oidcConfig := Some cfg\<rparr>, w)"
  by (simp add: begin_calls_uncached [OF assms] settle_calls_results result_of_def client_of_def
      world_of_def fetches_def getOidcConfig_resume_def getOidcConfig_begin_def)

theorem getOidcConfig_one_fetch_per_pending_call_witness:
  "oidcConfig example_client = None
   \<and> result_of (begin_calls revoke_fails 3 (example_client, example_world))
       = [AwaitingFetch, AwaitingFetch, AwaitingFetch]
   \<and> fetches (world_of (begin_calls revoke_fails 3 (example_client, example_world))) = 3
   \<and> getOidcConfig_begin revoke_fails
        (example_client\<lparr>oidcConfig := Some example_config\<rparr>, example_world)
       = (Done example_config, example_client\<lparr>oidcConfig := Some example_config\<rparr>,
          example_world)"
proof -
  have a: "oidcConfig example_client = None"
    by (simp add: example_client_def)
  have b: "fetches example_world = 0"
    by (simp add: example_world_def fetches_def)
  from getOidcConfig_one_fetch_per_pending_call
         [OF a, of revoke_fails 3 example_world "[]" example_config] a b
  show ?thesis
    by (simp add: numeral_3_eq_3)
qed

subsection \<open>Reading the sign-in session\<close>

text \<open>
  The slot holds the empty string.  That is a stored value, and no JSON text, but the
  getter returns \<^verbatim>\<open>undefined\<close> for it, as for a slot never set: it throws nothing.
\<close>

theorem signInSession_empty_string:
  "sessionStorage example_world (logtoStorageKey example_client) = Some []
   \<and> JSON_parse_examples [] = None
   \<and> signInSession JSON_parse_examples example_client example_world = Inr None"
  by (simp add: example_world_def example_client_def JSON_parse_examples_def signInSession_def
      js_def)

text \<open>
  C9, as the code has it.  The getter returns \<^verbatim>\<open>undefined\<close> when the slot was never set
  and when it holds the empty string.  For every other stored value that
  \<^verbatim>\<open>JSON.parse\<close> rejects, or parses to a value that does not match the schema of
  \<^verbatim>\<open>redirectUri\<close>, \<^verbatim>\<open>codeVerifier\<close> and \<^verbatim>\<open>state\<close>, it throws
  \<^verbatim>\<open>LogtoClientError('sign_in_session.invalid')\<close>.  An item it returns is the parsed
  stored value and matches the schema: never a default, never a partial item.
\<close>

theorem signInSession_read:
  "(sessionStorage w (logtoStorageKey c) = None \<longrightarrow> signInSession JSON_parse c w = Inr None)
   \<and> (sessionStorage w (logtoStorageKey c) = Some [] \<longrightarrow>
        signInSession JSON_parse c w = Inr None)
   \<and> (\<forall>v. sessionStorage w (logtoStorageKey c) = Some v \<and> v \<noteq> []
          \<and> (JSON_parse v = None
              \<or> (\<exists>item. JSON_parse v = Some item \<and> \<not> LogtoSignInSessionItemSchema item))
          \<longrightarrow> signInSession JSON_parse c w = Inl (LogtoClientError ''sign_in_session.invalid''))
   \<and> (\<forall>item. signInSession JSON_parse c w = Inr (Some item) \<longrightarrow>
          LogtoSignInSessionItemSchema item
          \<and> (\<exists>v. sessionStorage w (logtoStorageKey c) = Some v \<and> JSON_parse v = Some item))"
  by (auto simp: signInSession_def split: option.splits if_splits)

theorem signInSession_read_witness:
  \<open>signInSession JSON_parse_examples example_client
      (example_world\<lparr>sessionStorage := Map.empty\<rparr>) = Inr None
   \<and> signInSession JSON_parse_examples example_client
        (example_world\<lparr>sessionStorage := [js ''logto:app'' \<mapsto> js ''oops'']\<rparr>)
       = Inl (LogtoClientError ''sign_in_session.invalid'')
   \<and> signInSession JSON_parse_examples example_client
        (example_world\<lparr>sessionStorage := [js ''logto:app'' \<mapsto> js ''[1]'']\<rparr>)
       = Inl (LogtoClientError ''sign_in_session.invalid'')
   \<and> (signInSession JSON_parse_examples example_client
        (example_world\<lparr>sessionStorage :=
           [js ''logto:app'' \<mapsto> js ''{"redirectUri":"r","codeVerifier":"v","state":"s"}'']\<rparr>)
       = Inr (Some (JObject [(js ''redirectUri'', JString (js ''r'')),
                             (js ''codeVerifier'', JString (js ''v'')),
                             (js ''state'', JString (js ''s''))]))
      \<and> LogtoSignInSessionItemSchema
           (JObject [(js ''redirectUri'', JString (js ''r'')),
                     (js ''codeVerifier'', JString (js ''v'')),
                     (js ''state'', JString (js ''s''))]))\<close>
proof -
  have k: "logtoStorageKey example_client = js ''logto:app''"
    by (simp add: example_client_def)
  have p1: "JSON_parse_examples (js ''oops'') = None"
    by (simp add: JSON_parse_examples_def js_def)
  have p2: "JSON_parse_examples (js ''[1]'') = Some (JArray [JNumber (Finite 1 0)])"
    by (simp add: JSON_parse_examples_def)
  have s2: "\<not> LogtoSignInSessionItemSchema (JArray [JNumber (Finite 1 0)])"
    by (simp add: LogtoSignInSessionItemSchema_def)
  have ne: "js ''oops'' \<noteq> []" "js ''[1]'' \<noteq> []"
    by (simp_all add: js_def)
  have 1: "signInSession JSON_parse_examples example_client
      (example_world\<lparr>sessionStorage := Map.empty\<rparr>) = Inr None"
    using signInSession_read
      [where w = "example_world\<lparr>sessionStorage := Map.empty\<rparr>" and c = example_client
         and JSON_parse = JSON_parse_examples]
    by simp
  have 2: "signInSession JSON_parse_examples example_client
        (example_world\<lparr>sessionStorage := [js ''logto:app'' \<mapsto> js ''oops'']\<rparr>)
       = Inl (LogtoClientError ''sign_in_session.invalid'')"
    using signInSession_read
      [where w = "example_world\<lparr>sessionStorage := [js ''logto:app'' \<mapsto> js ''oops'']\<rparr>"
         and c = example_client and JSON_parse = JSON_parse_examples] p1 ne
    by (simp add: k)
  have 3: "signInSession JSON_parse_examples example_client
        (example_world\<lparr>sessionStorage := [js ''logto:app'' \<mapsto> js ''[1]'']\<rparr>)
       = Inl (LogtoClientError ''sign_in_session.invalid'')"
    using signInSession_read
      [where w = "example_world\<lparr>sessionStorage := [js ''logto:app'' \<mapsto> js ''[1]'']\<rparr>"
         and c = example_client and JSON_parse = JSON_parse_examples] p2 s2 ne
    by (simp add: k)
  have 4: \<open>signInSession JSON_parse_examples example_client
        (example_world\<lparr>sessionStorage :=
           [js ''logto:app'' \<mapsto> js ''{"redirectUri":"r","codeVerifier":"v","state":"s"}'']\<rparr>)
       = Inr (Some (JObject [(js ''redirectUri'', JString (js ''r'')),
                             (js ''codeVerifier'', JString (js ''v'')),
                             (js ''state'', JString (js ''s''))]))\<close>
    by (simp add: signInSession_def k JSON_parse_examples_def LogtoSignInSessionItemSchema_def)
       (simp add: js_def)
  from 4 signInSession_read
      [where w = \<open>example_world\<lparr>sessionStorage :=
           [js ''logto:app'' \<mapsto> js ''{"redirectUri":"r","codeVerifier":"v","state":"s"}'']\<rparr>\<close>
         and c = example_client and JSON_parse = JSON_parse_examples]
  have 5: "LogtoSignInSessionItemSchema
           (JObject [(js ''redirectUri'', JString (js ''r'')),
                     (js ''codeVerifier'', JString (js ''v'')),
                     (js ''state'', JString (js ''s''))])"
    by blast
  from 1 2 3 4 5 show ?thesis by simp
qed

end
